theory Spec2Isabelle
  imports Main
begin

section \<open>Values, reflection shapes and record metadata\<close>

text \<open>
  Go values that travel through \<open>any\<close>: field values, condition operands, positional
  arguments. \<open>VNil\<close> is the nil interface; every other constructor is a value with a
  dynamic type, so it compares unequal to nil.
\<close>

datatype val = VNil | VInt int | VStr string | VBool bool | VSlice "val list"

text \<open>
  \<open>reflect.Kind\<close>, restricted to the kinds the code tests; \<open>KOther\<close> stands for every
  remaining kind. \<open>rtype\<close> is a \<open>reflect.Type\<close> as far as \<open>Kind()\<close> and \<open>Elem()\<close> see it.
\<close>

datatype kind = KStruct | KPtr | KSlice | KMap | KOther

datatype rtype = TStruct | TPtr rtype | TSlice rtype | TMap | TOther

fun Kind :: "rtype \<Rightarrow> kind" where
  "Kind TStruct = KStruct"
| "Kind (TPtr _) = KPtr"
| "Kind (TSlice _) = KSlice"
| "Kind TMap = KMap"
| "Kind TOther = KOther"

fun Elem :: "rtype \<Rightarrow> rtype option" where
  "Elem (TPtr t) = Some t"
| "Elem (TSlice t) = Some t"
| "Elem _ = None"

text \<open>\<open>reflect.TypeOf\<close> of a positional argument: nil has no type.\<close>

fun TypeOfVal :: "val \<Rightarrow> rtype option" where
  "TypeOfVal VNil = None"
| "TypeOfVal (VSlice _) = Some (TSlice TOther)"
| "TypeOfVal _ = Some TOther"

text \<open>The enumerations of the external query builder (fluentsql).\<close>

datatype WhereOpt = Eq | In | OtherOpt nat

datatype WhereAndOr = And | Or

datatype OrderByDir = Asc | Desc

datatype JoinType = InnerJoin | LeftJoin | RightJoin | FullJoin | CrossJoin

datatype Condition =
  Condition (CField: val) (Opt: WhereOpt) (Value: val) (AndOr: WhereAndOr) (Group: "Condition list")

record JoinItem =
  Join :: JoinType
  JoinTable :: string
  JoinCondition :: Condition

record Column =
  Name :: string
  HasValue :: bool

record Table =
  TableName :: string
  Columns :: "Column list"
  Primaries :: "Column list"
  Values :: "string \<rightharpoonup> val"
  HasData :: bool

text \<open>A Go map read at a key that is absent yields the zero value, here the nil interface.\<close>

definition valueOf :: "Table \<Rightarrow> string \<Rightarrow> val" where
  "valueOf table name = (case Values table name of None \<Rightarrow> VNil | Some v \<Rightarrow> v)"

text \<open>
  The argument of a terminal operation, by its shape. A record instance is represented by
  the metadata its introspection yields; a pointer to a sequence by the metadata of its
  element type; a map by its entries in the order \<open>MapKeys\<close> hands them out.
  \<open>ModelOther\<close> is any remaining non-nil value (a scalar, a pointer to a scalar, a
  sequence passed by value, ...).
\<close>

datatype model =
    ModelNil
  | ModelStruct Table
  | ModelPtrStruct Table
  | ModelPtrSlice Table
  | ModelMap "(string \<times> val) list"
  | ModelOther

fun TypeOf :: "model \<Rightarrow> rtype option" where
  "TypeOf ModelNil = None"
| "TypeOf (ModelStruct _) = Some TStruct"
| "TypeOf (ModelPtrStruct _) = Some (TPtr TStruct)"
| "TypeOf (ModelPtrSlice _) = Some (TPtr (TSlice TStruct))"
| "TypeOf (ModelMap _) = Some TMap"
| "TypeOf ModelOther = Some TOther"

text \<open>
  Modelled from the spec: \<open>ModelData\<close> (the record metadata extractor) is not among the
  sources. It introspects a record or pointer-to-record into its \<open>Table\<close> and fails for any
  other shape; the callers drop that error and go on to read the table, so no table
  means the caller cannot continue.
\<close>

fun ModelData :: "model \<Rightarrow> Table option" where
  "ModelData (ModelStruct t) = Some t"
| "ModelData (ModelPtrStruct t) = Some t"
| "ModelData _ = None"

text \<open>
  Modelled from the spec: \<open>processModel\<close> is not among the sources; \<open>Find\<close> applies it to
  the element type of the target sequence to obtain that type's metadata.
\<close>

fun processModel :: "model \<Rightarrow> Table option" where
  "processModel (ModelPtrSlice t) = Some t"
| "processModel _ = None"

definition isStructOrPtrStruct :: "rtype \<Rightarrow> bool" where
  "isStructOrPtrStruct typ =
     (Kind typ = KStruct \<or> (Kind typ = KPtr \<and> map_option Kind (Elem typ) = Some KStruct))"

definition isPtrSlice :: "rtype \<Rightarrow> bool" where
  "isPtrSlice typ = (Kind typ = KPtr \<and> map_option Kind (Elem typ) = Some KSlice)"

text \<open>The primary key is the name of the first primary column, or nil.\<close>

definition primaryKeyOf :: "Table \<Rightarrow> val" where
  "primaryKeyOf table = (case Primaries table of [] \<Rightarrow> VNil | p # _ \<Rightarrow> VStr (Name p))"

section \<open>The external builders, as the record of the calls made on them\<close>

datatype WhereCall =
    WhereC val WhereOpt val
  | WhereOrC val WhereOpt val
  | WhereGroupC "Condition list"
  | WhereConditionC "Condition list"

text \<open>
  \<open>qOrderBy\<close> keeps the direction as an option: \<open>None\<close> is the zero value of the external
  direction type, passed when no branch assigned one.
\<close>

record QueryBuilder =
  qSelect :: "val list"
  qFrom :: string
  qJoin :: "JoinItem list"
  qWhere :: "WhereCall list"
  qGroupBy :: "val list"
  qHaving :: "(val \<times> WhereOpt \<times> val) list"
  qLimit :: "(int \<times> int) option"
  qFetch :: "(int \<times> int) option"
  qOrderBy :: "(val \<times> OrderByDir option) list"

definition QueryInstance :: QueryBuilder where
  "QueryInstance = \<lparr>qSelect = [], qFrom = [], qJoin = [], qWhere = [], qGroupBy = [],
     qHaving = [], qLimit = None, qFetch = None, qOrderBy = []\<rparr>"

definition Select :: "val list \<Rightarrow> QueryBuilder \<Rightarrow> QueryBuilder" where
  "Select cols q = q\<lparr>qSelect := qSelect q @ cols\<rparr>"

definition From :: "string \<Rightarrow> QueryBuilder \<Rightarrow> QueryBuilder" where
  "From t q = q\<lparr>qFrom := t\<rparr>"

definition Limit :: "int \<Rightarrow> int \<Rightarrow> QueryBuilder \<Rightarrow> QueryBuilder" where
  "Limit l off q = q\<lparr>qLimit := Some (l, off)\<rparr>"

definition Fetch :: "int \<Rightarrow> int \<Rightarrow> QueryBuilder \<Rightarrow> QueryBuilder" where
  "Fetch off f q = q\<lparr>qFetch := Some (off, f)\<rparr>"

definition JoinQ :: "JoinItem \<Rightarrow> QueryBuilder \<Rightarrow> QueryBuilder" where
  "JoinQ j q = q\<lparr>qJoin := qJoin q @ [j]\<rparr>"

definition GroupBy :: "val list \<Rightarrow> QueryBuilder \<Rightarrow> QueryBuilder" where
  "GroupBy items q = q\<lparr>qGroupBy := qGroupBy q @ items\<rparr>"

definition Having :: "val \<Rightarrow> WhereOpt \<Rightarrow> val \<Rightarrow> QueryBuilder \<Rightarrow> QueryBuilder" where
  "Having f opt v q = q\<lparr>qHaving := qHaving q @ [(f, opt, v)]\<rparr>"

definition OrderBy :: "val \<Rightarrow> OrderByDir option \<Rightarrow> QueryBuilder \<Rightarrow> QueryBuilder" where
  "OrderBy f d q = q\<lparr>qOrderBy := qOrderBy q @ [(f, d)]\<rparr>"

definition addWhere :: "WhereCall \<Rightarrow> QueryBuilder \<Rightarrow> QueryBuilder" where
  "addWhere c q = q\<lparr>qWhere := qWhere q @ [c]\<rparr>"

record UpdateBuilder =
  uTable :: string
  uWhere :: "WhereCall list"
  uSet :: "(string \<times> val) list"

definition UpdateInstance :: UpdateBuilder where
  "UpdateInstance = \<lparr>uTable = [], uWhere = [], uSet = []\<rparr>"

definition UpdateTable :: "string \<Rightarrow> UpdateBuilder \<Rightarrow> UpdateBuilder" where
  "UpdateTable t u = u\<lparr>uTable := t\<rparr>"

definition addUWhere :: "WhereCall \<Rightarrow> UpdateBuilder \<Rightarrow> UpdateBuilder" where
  "addUWhere c u = u\<lparr>uWhere := uWhere u @ [c]\<rparr>"

definition SetPair :: "string \<Rightarrow> val \<Rightarrow> UpdateBuilder \<Rightarrow> UpdateBuilder" where
  "SetPair c v u = u\<lparr>uSet := uSet u @ [(c, v)]\<rparr>"

section \<open>Fluent builder state, statements and outcomes\<close>

text \<open>
  The fields of \<open>DBModel\<close> that the terminal operations read. \<open>tx\<close> tells whether a
  transaction handle is present; \<open>model\<close> is the bound model, \<open>ModelNil\<close> when none.
\<close>

record DBModel =
  model :: model
  tx :: bool
  raw_sqlStr :: string
  raw_args :: "val list"
  selectStatement :: "val list"
  omitsSelectStatement :: "val list"
  wherePrimaryCondition :: Condition
  whereStatement :: "Condition list"
  joinStatement :: "JoinItem list"
  groupByStatement :: "val list"
  havingStatement :: "Condition list"
  limit_Limit :: int
  limit_Offset :: int
  fetch_Offset :: int
  fetch_Fetch :: int
  orderByStatement :: "(val \<times> OrderByDir) list"

definition zeroCondition :: Condition where
  "zeroCondition = Condition VNil Eq VNil And []"

text \<open>The builder state with every field at its zero value.\<close>

definition emptyDB :: DBModel where
  "emptyDB = \<lparr>model = ModelNil, tx = False, raw_sqlStr = [], raw_args = [],
     selectStatement = [], omitsSelectStatement = [], wherePrimaryCondition = zeroCondition,
     whereStatement = [], joinStatement = [], groupByStatement = [], havingStatement = [],
     limit_Limit = 0, limit_Offset = 0, fetch_Offset = 0, fetch_Fetch = 0,
     orderByStatement = []\<rparr>"

text \<open>
  Modelled from the spec: \<open>reset\<close> is not among the sources; it clears every field of
  the builder state to its zero value.
\<close>

definition reset :: "DBModel \<Rightarrow> DBModel" where
  "reset db = emptyDB"

datatype error = InvalidModel | InvalidParams | MissingModel | MissingWhere | DriverError string

text \<open>What reaches the database: a raw statement, or an assembled query or update.\<close>

datatype stmt =
    RawGet bool string "val list"
  | RawSelect bool string "val list"
  | RawExec string "val list"
  | QueryGet QueryBuilder
  | QuerySelect QueryBuilder
  | QueryCount QueryBuilder
  | UpdateExec UpdateBuilder

text \<open>
  How a call ends: it returns a result with the builder state it leaves behind, it
  panics, or it hands an error to the fatal logger, which ends the process. Each case
  carries the statements sent to the database so far.
\<close>

datatype 'r outcome =
    Returned 'r DBModel "stmt list"
  | Panicked "stmt list"
  | Fatal error "stmt list"

text \<open>
  What the code takes from outside the sources: the update policy of a column
  (\<open>CanColumnBeAddOrUpdate\<close>); \<open>whereFromModel\<close>, which its call sites describe as building
  where-conditions from the bound model, given by the calls it adds to the builder; the
  field assignment \<open>SetValue\<close>; and the database (the error a statement ends with, the
  number a count statement reports).
\<close>

record env =
  CanColumnBeAddOrUpdate :: "Table \<Rightarrow> Column \<Rightarrow> bool"
  whereFromModel :: "model \<Rightarrow> WhereCall list"
  SetValue :: "model \<Rightarrow> string \<Rightarrow> val \<Rightarrow> model"
  driver :: "stmt \<Rightarrow> error option"
  counted :: "stmt \<Rightarrow> int"

section \<open>Single-row retrieval: First, Last, Take\<close>

datatype GetOneType = GetFirst | GetLast | TakeOne

text \<open>The loop over the configured where-conditions, as \<open>GetOne\<close> and \<open>Find\<close> run it.\<close>

fun whereConditions :: "Condition list \<Rightarrow> QueryBuilder \<Rightarrow> QueryBuilder" where
  "whereConditions [] q = q"
| "whereConditions (condition # rest) q =
     whereConditions rest
       (if length (Group condition) > 0 then addWhere (WhereGroupC (Group condition)) q
        else if AndOr condition = And then
          addWhere (WhereC (CField condition) (Opt condition) (Value condition)) q
        else if AndOr condition = Or then
          addWhere (WhereOrC (CField condition) (Opt condition) (Value condition)) q
        else q)"

text \<open>The loop over the columns of a record that carries data: one equality per populated column.\<close>

fun whereModelData :: "Table \<Rightarrow> Column list \<Rightarrow> QueryBuilder \<Rightarrow> QueryBuilder" where
  "whereModelData table [] q = q"
| "whereModelData table (column # rest) q =
     whereModelData table rest
       (if \<not> HasValue column then q
        else addWhere (WhereC (VStr (Name column)) Eq (valueOf table (Name column))) q)"

fun addWheres :: "WhereCall list \<Rightarrow> QueryBuilder \<Rightarrow> QueryBuilder" where
  "addWheres [] q = q"
| "addWheres (c # cs) q = addWheres cs (addWhere c q)"

text \<open>
  \<open>rand.Int(rand.Reader, max)\<close> of crypto/rand: it panics when \<open>max \<le> 0\<close> and otherwise
  returns a value of \<open>[0, max)\<close>. The entropy it reads is an explicit argument, and the
  sample is its residue; \<open>None\<close> is the panic.
\<close>

definition randInt :: "int \<Rightarrow> nat \<Rightarrow> int option" where
  "randInt bound e = (if bound \<le> 0 then None else Some (int e mod bound))"

text \<open>The statements of \<open>GetOne\<close> up to and including the call of \<open>whereFromModel\<close>.\<close>

definition assembleOne :: "env \<Rightarrow> DBModel \<Rightarrow> Table \<Rightarrow> QueryBuilder" where
  "assembleOne E db table =
     (let primaryKey = primaryKeyOf table;
          selectColumns =
            (if length (selectStatement db) > 0 then selectStatement db else [VStr ''*'']);
          queryBuilder = Limit 1 0 (From (TableName table) (Select selectColumns QueryInstance));
          queryBuilder =
            (if Value (wherePrimaryCondition db) \<noteq> VNil \<and> primaryKey \<noteq> VNil then
               addWhere (WhereC primaryKey (Opt (wherePrimaryCondition db))
                 (Value (wherePrimaryCondition db))) queryBuilder
             else queryBuilder);
          queryBuilder = whereConditions (whereStatement db) queryBuilder;
          queryBuilder =
            (if HasData table then whereModelData table (Columns table) queryBuilder
             else queryBuilder)
      in addWheres (whereFromModel E (model db)) queryBuilder)"

text \<open>
  The initial order-by field: the primary key, else the name of column 0. \<open>None\<close> is the
  index-out-of-range panic on a record without columns.
\<close>

definition orderByFieldOf :: "Table \<Rightarrow> string option" where
  "orderByFieldOf table =
     (case primaryKeyOf table of
        VStr p \<Rightarrow> Some p
      | _ \<Rightarrow> (case Columns table of [] \<Rightarrow> None | c # _ \<Rightarrow> Some (Name c)))"

text \<open>
  The choice of field and direction. \<open>rnd\<close> holds the entropy of the two random draws;
  \<open>None\<close> is a panic of \<open>rand.Int\<close>.
\<close>

definition orderOf ::
  "Table \<Rightarrow> GetOneType \<Rightarrow> nat \<times> nat \<Rightarrow> string \<Rightarrow> (string \<times> OrderByDir option) option" where
  "orderOf table getType rnd orderByField =
     (if getType = GetLast \<and> orderByField \<noteq> [] then Some (orderByField, Some Desc)
      else if getType = GetFirst \<and> orderByField \<noteq> [] then Some (orderByField, Some Asc)
      else if getType = TakeOne then
        (case randInt (int (length (Columns table)) - 1) (fst rnd) of
           None \<Rightarrow> None
         | Some n \<Rightarrow>
             (case randInt 10 (snd rnd) of
                None \<Rightarrow> None
              | Some d \<Rightarrow>
                  Some (Name (Columns table ! nat n),
                        if d mod 2 = 1 then Some Asc else Some Desc)))
      else Some (orderByField, None))"

text \<open>
  Modelled from the spec: \<open>db.get\<close> is not among the sources; it executes the assembled
  query, binding the single row into the target. Everything else is \<open>GetOne\<close> as written.
\<close>

definition GetOne ::
  "env \<Rightarrow> nat \<times> nat \<Rightarrow> DBModel \<Rightarrow> stmt list \<Rightarrow> model \<Rightarrow> GetOneType \<Rightarrow> error option outcome" where
  "GetOne E rnd db log m getType =
     (if raw_sqlStr db \<noteq> [] then
        (let s = RawGet (tx db) (raw_sqlStr db) (raw_args db)
         in Returned (driver E s) (reset db) (log @ [s]))
      else
        (case TypeOf m of
           None \<Rightarrow> Panicked log
         | Some typ \<Rightarrow>
             if \<not> isStructOrPtrStruct typ then Returned (Some InvalidModel) db log
             else
               (case ModelData m of
                  None \<Rightarrow> Panicked log
                | Some table \<Rightarrow>
                    (let queryBuilder = assembleOne E db table in
                     case orderByFieldOf table of
                       None \<Rightarrow> Panicked log
                     | Some orderByField \<Rightarrow>
                         (case orderOf table getType rnd orderByField of
                            None \<Rightarrow> Panicked log
                          | Some (field, dir) \<Rightarrow>
                              (let s = QueryGet (OrderBy (VStr field) dir queryBuilder)
                               in Returned (driver E s) (reset db) (log @ [s])))))))"

text \<open>The opening of \<open>First\<close>: a positional argument becomes the primary-key condition.\<close>

definition primaryFromArgs :: "DBModel \<Rightarrow> val list \<Rightarrow> DBModel" where
  "primaryFromArgs db args =
     (if length args > 0 then db\<lparr>wherePrimaryCondition := Condition VNil Eq (hd args) And []\<rparr>
      else db)"

definition First ::
  "env \<Rightarrow> nat \<times> nat \<Rightarrow> DBModel \<Rightarrow> stmt list \<Rightarrow> model \<Rightarrow> val list \<Rightarrow> error option outcome" where
  "First E rnd db log m args = GetOne E rnd (primaryFromArgs db args) log m GetFirst"

definition Take ::
  "env \<Rightarrow> nat \<times> nat \<Rightarrow> DBModel \<Rightarrow> stmt list \<Rightarrow> model \<Rightarrow> error option outcome" where
  "Take E rnd db log m = GetOne E rnd db log m TakeOne"

definition Last ::
  "env \<Rightarrow> nat \<times> nat \<Rightarrow> DBModel \<Rightarrow> stmt list \<Rightarrow> model \<Rightarrow> error option outcome" where
  "Last E rnd db log m = GetOne E rnd db log m GetLast"

section \<open>Multi-row retrieval: Find\<close>

fun joins :: "JoinItem list \<Rightarrow> QueryBuilder \<Rightarrow> QueryBuilder" where
  "joins [] q = q"
| "joins (joinItem # rest) q = joins rest (JoinQ joinItem q)"

fun havings :: "Condition list \<Rightarrow> QueryBuilder \<Rightarrow> QueryBuilder" where
  "havings [] q = q"
| "havings (condition # rest) q =
     havings rest (Having (CField condition) (Opt condition) (Value condition) q)"

fun orderBys :: "(val \<times> OrderByDir) list \<Rightarrow> QueryBuilder \<Rightarrow> QueryBuilder" where
  "orderBys [] q = q"
| "orderBys (orderItem # rest) q =
     orderBys rest (OrderBy (fst orderItem) (Some (snd orderItem)) q)"

text \<open>The statements of \<open>Find\<close> from the select list to the order-by loop.\<close>

definition assembleFind :: "env \<Rightarrow> DBModel \<Rightarrow> Table \<Rightarrow> QueryBuilder" where
  "assembleFind E db table =
     (let primaryKey = primaryKeyOf table;
          selectColumns =
            (if length (selectStatement db) > 0 then selectStatement db else [VStr ''*'']);
          queryBuilder = From (TableName table) (Select selectColumns QueryInstance);
          queryBuilder = joins (joinStatement db) queryBuilder;
          queryBuilder =
            (if Value (wherePrimaryCondition db) \<noteq> VNil \<and> primaryKey \<noteq> VNil then
               addWhere (WhereConditionC [wherePrimaryCondition db]) queryBuilder
             else queryBuilder);
          queryBuilder = whereConditions (whereStatement db) queryBuilder;
          queryBuilder = addWheres (whereFromModel E (model db)) queryBuilder;
          queryBuilder =
            (if length (groupByStatement db) > 0 then GroupBy (groupByStatement db) queryBuilder
             else queryBuilder);
          queryBuilder = havings (havingStatement db) queryBuilder;
          queryBuilder =
            (if limit_Limit db > 0 then Limit (limit_Limit db) (limit_Offset db) queryBuilder
             else queryBuilder);
          queryBuilder =
            (if fetch_Fetch db > 0 then Fetch (fetch_Offset db) (fetch_Fetch db) queryBuilder
             else queryBuilder)
      in orderBys (orderByStatement db) queryBuilder)"

text \<open>
  Modelled from the spec: \<open>db.count\<close> is not among the sources. It runs the companion
  count query: the same query with its limit/offset, fetch and order-by left out.
\<close>

definition countQuery :: "QueryBuilder \<Rightarrow> QueryBuilder" where
  "countQuery q = q\<lparr>qLimit := None, qFetch := None, qOrderBy := []\<rparr>"

text \<open>
  Modelled from the spec: \<open>db.query\<close> is not among the sources; it executes the assembled
  query, binding all rows into the target. This is the persistence step that closes
  \<open>Find\<close>: the row query, then the count query, then the reset.
\<close>

definition findExec ::
  "env \<Rightarrow> DBModel \<Rightarrow> stmt list \<Rightarrow> QueryBuilder \<Rightarrow> (int \<times> error option) outcome" where
  "findExec E db log queryBuilder =
     (let s1 = QuerySelect queryBuilder in
      case driver E s1 of
        Some err \<Rightarrow> Returned (0, Some err) db (log @ [s1])
      | None \<Rightarrow>
          (let s2 = QueryCount (countQuery queryBuilder) in
           case driver E s2 of
             Some err \<Rightarrow> Returned (0, Some err) db (log @ [s1, s2])
           | None \<Rightarrow> Returned (counted E s2, None) (reset db) (log @ [s1, s2])))"

definition Find ::
  "env \<Rightarrow> DBModel \<Rightarrow> stmt list \<Rightarrow> model \<Rightarrow> val list \<Rightarrow> (int \<times> error option) outcome" where
  "Find E db log m params =
     (if raw_sqlStr db \<noteq> [] then
        (let s = RawSelect (tx db) (raw_sqlStr db) (raw_args db)
         in Returned (0, driver E s) (reset db) (log @ [s]))
      else
        (case TypeOf m of
           None \<Rightarrow> Panicked log
         | Some typ \<Rightarrow>
             if \<not> isPtrSlice typ then Returned (0, Some InvalidModel) db log
             else
               (case processModel m of
                  None \<Rightarrow> Panicked log
                | Some table \<Rightarrow>
                    (let primaryKey = primaryKeyOf table in
                     if length params > 0 \<and> primaryKey \<noteq> VNil then
                       (let sliceIds = hd params in
                        case TypeOfVal sliceIds of
                          None \<Rightarrow> Panicked log
                        | Some typ \<Rightarrow>
                            if \<not> (Kind typ = KSlice) then
                              Returned (0, Some InvalidParams) db log
                            else
                              (let db = db\<lparr>wherePrimaryCondition :=
                                          Condition primaryKey In sliceIds And []\<rparr>
                               in findExec E db log (assembleFind E db table)))
                     else findExec E db log (assembleFind E db table)))))"

section \<open>Mutation: Update\<close>

text \<open>
  The first loop of \<open>updateByStruct\<close>: it gathers the names and values of the columns
  that pass both restrictions, and captures the primary-key condition when it meets the
  primary-key column among them.
\<close>

fun updateColumns ::
  "env \<Rightarrow> Table \<Rightarrow> val list \<Rightarrow> val \<Rightarrow> Column list \<Rightarrow>
   string list \<times> val list \<times> Condition \<Rightarrow> string list \<times> val list \<times> Condition" where
  "updateColumns E table omits primaryKey [] acc = acc"
| "updateColumns E table omits primaryKey (column # rest) (columns, values, wpc) =
     updateColumns E table omits primaryKey rest
       (if \<not> CanColumnBeAddOrUpdate E table column then (columns, values, wpc)
        else if length omits > 0 \<and> VStr (Name column) \<in> set omits then (columns, values, wpc)
        else
          (let v = valueOf table (Name column) in
           (columns @ [Name column], values @ [v],
            if VStr (Name column) = primaryKey then Condition primaryKey Eq v And [] else wpc)))"

text \<open>The loop over the configured where-conditions; the flag is \<open>hasCondition\<close>.\<close>

fun updateWhere :: "Condition list \<Rightarrow> UpdateBuilder \<times> bool \<Rightarrow> UpdateBuilder \<times> bool" where
  "updateWhere [] acc = acc"
| "updateWhere (condition # rest) (u, hasCondition) =
     updateWhere rest
       (if length (Group condition) > 0 then (addUWhere (WhereGroupC (Group condition)) u, True)
        else if AndOr condition = And then
          (addUWhere (WhereC (CField condition) (Opt condition) (Value condition)) u, True)
        else if AndOr condition = Or then
          (addUWhere (WhereOrC (CField condition) (Opt condition) (Value condition)) u, True)
        else (u, hasCondition))"

text \<open>The last loop: one SET pair per column that holds a value.\<close>

fun setValues :: "Table \<Rightarrow> Column list \<Rightarrow> UpdateBuilder \<Rightarrow> UpdateBuilder" where
  "setValues table [] u = u"
| "setValues table (column # rest) u =
     setValues table rest
       (if \<not> HasValue column then u
        else SetPair (Name column) (valueOf table (Name column)) u)"

text \<open>
  Modelled from the spec: \<open>db.update\<close> is not among the sources; it executes the update
  statement. Everything else is \<open>updateByStruct\<close> as written; the gathered column and
  value lists are not read again.
\<close>

definition updateByStruct ::
  "env \<Rightarrow> DBModel \<Rightarrow> stmt list \<Rightarrow> model \<Rightarrow> error option outcome" where
  "updateByStruct E db log m =
     (case ModelData m of
        None \<Rightarrow> Panicked log
      | Some table \<Rightarrow>
          (let primaryKey = primaryKeyOf table;
               (columns, values, wpc) =
                 updateColumns E table (omitsSelectStatement db) primaryKey (Columns table)
                   ([], [], wherePrimaryCondition db);
               db = db\<lparr>wherePrimaryCondition := wpc\<rparr>;
               updateBuilder = UpdateTable (TableName table) UpdateInstance;
               (updateBuilder, hasCondition) =
                 (if Value (wherePrimaryCondition db) \<noteq> VNil \<and> primaryKey \<noteq> VNil then
                    (addUWhere (WhereC primaryKey (Opt (wherePrimaryCondition db))
                       (Value (wherePrimaryCondition db))) updateBuilder, True)
                  else (updateBuilder, False));
               (updateBuilder, hasCondition) =
                 updateWhere (whereStatement db) (updateBuilder, hasCondition)
           in if \<not> hasCondition then Returned (Some MissingWhere) db log
              else
                (let updateBuilder = setValues table (Columns table) updateBuilder;
                     s = UpdateExec updateBuilder
                 in Returned (driver E s) db (log @ [s]))))"

text \<open>
  The loop of \<open>updateByMap\<close> over the entries of a \<open>map[string]interface{}\<close>: the value
  read by \<open>MapIndex\<close> has kind interface, for which \<open>IsZero\<close> is \<open>IsNil\<close>.
\<close>

fun setFromMap :: "env \<Rightarrow> (string \<times> val) list \<Rightarrow> model \<Rightarrow> model" where
  "setFromMap E [] mdl = mdl"
| "setFromMap E ((key, itemVal) # rest) mdl =
     setFromMap E rest (if itemVal \<noteq> VNil then SetValue E mdl key itemVal else mdl)"

definition updateByMap ::
  "env \<Rightarrow> DBModel \<Rightarrow> stmt list \<Rightarrow> model \<Rightarrow> error option outcome" where
  "updateByMap E db log v =
     (if model db = ModelNil then Returned (Some MissingModel) db log
      else
        (case v of
           ModelMap entries \<Rightarrow>
             (let db = db\<lparr>model := setFromMap E entries (model db)\<rparr>
              in updateByStruct E db log (model db))
         | _ \<Rightarrow> Panicked log))"

text \<open>
  Modelled from the spec: \<open>db.execRaw\<close> is not among the sources; it executes the raw
  statement. This is the dispatch that opens \<open>Update\<close>.
\<close>

definition dispatchUpdate ::
  "env \<Rightarrow> DBModel \<Rightarrow> stmt list \<Rightarrow> model \<Rightarrow> error option outcome" where
  "dispatchUpdate E db log m =
     (if raw_sqlStr db \<noteq> [] then
        (let s = RawExec (raw_sqlStr db) (raw_args db)
         in Returned (driver E s) db (log @ [s]))
      else
        (case TypeOf m of
           None \<Rightarrow> Panicked log
         | Some typ \<Rightarrow>
             if Kind typ = KMap then updateByMap E db log m
             else if isStructOrPtrStruct typ then updateByStruct E db log m
             else Returned None db log))"

text \<open>\<open>Update\<close>: a non-nil error goes to \<open>log.Fatal\<close>; otherwise the state is reset.\<close>

definition Update ::
  "env \<Rightarrow> DBModel \<Rightarrow> stmt list \<Rightarrow> model \<Rightarrow> error option outcome" where
  "Update E db log m =
     (case dispatchUpdate E db log m of
        Returned (Some err) db' log' \<Rightarrow> Fatal err log'
      | Returned None db' log' \<Rightarrow> Returned None (reset db') log'
      | Panicked log' \<Rightarrow> Panicked log'
      | Fatal err log' \<Rightarrow> Fatal err log')"

section \<open>Notions used to state the properties\<close>

text \<open>The builder call that the where-loop makes for one configured condition.\<close>

definition whereCallOf :: "Condition \<Rightarrow> WhereCall" where
  "whereCallOf c =
     (if Group c \<noteq> [] then WhereGroupC (Group c)
      else case AndOr c of
        And \<Rightarrow> WhereC (CField c) (Opt c) (Value c)
      | Or \<Rightarrow> WhereOrC (CField c) (Opt c) (Value c))"

text \<open>In-struct filtering: one equality per populated column of a record that carries data.\<close>

definition inStructFilters :: "Table \<Rightarrow> WhereCall list" where
  "inStructFilters table =
     (if HasData table
      then map (\<lambda>c. WhereC (VStr (Name c)) Eq (valueOf table (Name c)))
             (filter HasValue (Columns table))
      else [])"

text \<open>The condition drawn from the primary-key slot of the builder state, if any.\<close>

definition primaryFilter :: "DBModel \<Rightarrow> Table \<Rightarrow> WhereCall list" where
  "primaryFilter db table =
     (if Value (wherePrimaryCondition db) \<noteq> VNil \<and> primaryKeyOf table \<noteq> VNil
      then [WhereC (primaryKeyOf table) (Opt (wherePrimaryCondition db))
              (Value (wherePrimaryCondition db))]
      else [])"

text \<open>
  The primary-key condition in effect when \<open>updateByStruct\<close> builds its WHERE clause:
  the one left by the column loop, which keeps the configured condition unless it
  captures the record's own primary-key value.
\<close>

definition capturedPrimary :: "env \<Rightarrow> DBModel \<Rightarrow> Table \<Rightarrow> Condition" where
  "capturedPrimary E db table =
     snd (snd (updateColumns E table (omitsSelectStatement db) (primaryKeyOf table)
       (Columns table) ([], [], wherePrimaryCondition db)))"

text \<open>The builder state \<open>Find\<close> assembles from, once an id list has been accepted.\<close>

definition findDB :: "DBModel \<Rightarrow> Table \<Rightarrow> val list \<Rightarrow> DBModel" where
  "findDB db table params =
     (if length params > 0 \<and> primaryKeyOf table \<noteq> VNil then
        db\<lparr>wherePrimaryCondition := Condition (primaryKeyOf table) In (hd params) And []\<rparr>
      else db)"

text \<open>The query \<open>GetOne\<close> sends when it orders by field \<open>f\<close> in direction \<open>d\<close>.\<close>

definition singleRowQuery ::
  "env \<Rightarrow> DBModel \<Rightarrow> Table \<Rightarrow> string \<Rightarrow> OrderByDir \<Rightarrow> QueryBuilder" where
  "singleRowQuery E db table f d = OrderBy (VStr f) (Some d) (assembleOne E db table)"

subsection \<open>A concrete environment and records\<close>

text \<open>
  A field assignment in the sense of the spec: the value is stored under the name,
  through a pointer to a record; anything else is left as it is.
\<close>

definition setField :: "model \<Rightarrow> string \<Rightarrow> val \<Rightarrow> model" where
  "setField m key v =
     (case m of
        ModelPtrStruct t \<Rightarrow>
          ModelPtrStruct
            (t\<lparr>Columns := map (\<lambda>c. if Name c = key then c\<lparr>HasValue := True\<rparr> else c) (Columns t),
               Values := (Values t)(key \<mapsto> v), HasData := True\<rparr>)
      | _ \<Rightarrow> m)"

definition exampleEnv :: env where
  "exampleEnv = \<lparr>CanColumnBeAddOrUpdate = (\<lambda>table column. Name column \<noteq> ''CreatedAt''),
     whereFromModel = (\<lambda>m. []), SetValue = setField,
     driver = (\<lambda>s. None), counted = (\<lambda>s. 42)\<rparr>"

definition userTable :: Table where
  "userTable = \<lparr>TableName = ''users'',
     Columns = [\<lparr>Name = ''Id'', HasValue = True\<rparr>, \<lparr>Name = ''Name'', HasValue = True\<rparr>,
                \<lparr>Name = ''Age'', HasValue = False\<rparr>],
     Primaries = [\<lparr>Name = ''Id'', HasValue = True\<rparr>],
     Values = [''Id'' \<mapsto> VInt 103, ''Name'' \<mapsto> VStr ''Cat'', ''Age'' \<mapsto> VInt 0],
     HasData = True\<rparr>"

text \<open>A record type that declares a single column.\<close>

definition tokenTable :: Table where
  "tokenTable = \<lparr>TableName = ''tokens'',
     Columns = [\<lparr>Name = ''Token'', HasValue = False\<rparr>],
     Primaries = [],
     Values = [''Token'' \<mapsto> VStr []],
     HasData = False\<rparr>"

text \<open>A builder state after \<open>WhereOr\<close> and \<open>WhereGroup\<close> calls.\<close>

definition whereDB :: DBModel where
  "whereDB = emptyDB\<lparr>whereStatement :=
     [Condition (VStr ''Age'') Eq (VInt 42) Or [],
      Condition VNil Eq VNil And
        [Condition (VStr ''Name'') Eq (VStr ''Cat'') And [],
         Condition (VStr ''Name'') Eq (VStr ''Dog'') Or []]]\<rparr>"

text \<open>A database that refuses every statement.\<close>

definition failingEnv :: env where
  "failingEnv = exampleEnv\<lparr>driver := (\<lambda>s. Some (DriverError ''connection refused''))\<rparr>"

text \<open>
  A record with a primary key, a plain column and a column the update policy of
  \<open>exampleEnv\<close> excludes, all three populated; and a builder state that omits the plain
  column.
\<close>

definition articleTable :: Table where
  "articleTable = \<lparr>TableName = ''articles'',
     Columns = [\<lparr>Name = ''Id'', HasValue = True\<rparr>, \<lparr>Name = ''Title'', HasValue = True\<rparr>,
                \<lparr>Name = ''CreatedAt'', HasValue = True\<rparr>],
     Primaries = [\<lparr>Name = ''Id'', HasValue = True\<rparr>],
     Values = [''Id'' \<mapsto> VInt 7, ''Title'' \<mapsto> VStr ''Go'', ''CreatedAt'' \<mapsto> VInt 1700000000],
     HasData = True\<rparr>"

definition omitDB :: DBModel where
  "omitDB = emptyDB\<lparr>omitsSelectStatement := [VStr ''Title'']\<rparr>"

text \<open>A builder state with a bound single-column record, and one with a raw statement.\<close>

definition boundDB :: DBModel where
  "boundDB = emptyDB\<lparr>model := ModelPtrStruct tokenTable\<rparr>"

definition rawDB :: DBModel where
  "rawDB = emptyDB\<lparr>raw_sqlStr := ''UPDATE users SET age = 1''\<rparr>"

text \<open>A record with a primary key for which the value map holds nothing.\<close>

definition draftTable :: Table where
  "draftTable = \<lparr>TableName = ''drafts'',
     Columns = [\<lparr>Name = ''Id'', HasValue = False\<rparr>, \<lparr>Name = ''Body'', HasValue = True\<rparr>],
     Primaries = [\<lparr>Name = ''Id'', HasValue = False\<rparr>],
     Values = [''Body'' \<mapsto> VStr ''text''],
     HasData = True\<rparr>"

section \<open>The where-loops and the single-row assembly\<close>

lemma qWhere_whereConditions:
  "qWhere (whereConditions cs q) = qWhere q @ map whereCallOf cs"
proof (induction cs arbitrary: q)
  case Nil
  show ?case by simp
next
  case (Cons c cs)
  show ?case
    by (cases "AndOr c") (simp_all add: Cons.IH addWhere_def whereCallOf_def)
qed

lemma rest_whereConditions:
  "qLimit (whereConditions cs q) = qLimit q"
  "qOrderBy (whereConditions cs q) = qOrderBy q"
  "qSelect (whereConditions cs q) = qSelect q"
  "qFrom (whereConditions cs q) = qFrom q"
  by (induction cs arbitrary: q) (auto simp: addWhere_def)

lemma qWhere_whereModelData:
  "qWhere (whereModelData table cs q) =
     qWhere q @ map (\<lambda>c. WhereC (VStr (Name c)) Eq (valueOf table (Name c))) (filter HasValue cs)"
  by (induction cs arbitrary: q) (auto simp: addWhere_def)

lemma rest_whereModelData:
  "qLimit (whereModelData table cs q) = qLimit q"
  "qOrderBy (whereModelData table cs q) = qOrderBy q"
  "qFrom (whereModelData table cs q) = qFrom q"
  by (induction cs arbitrary: q) (auto simp: addWhere_def)

lemma qWhere_addWheres: "qWhere (addWheres cs q) = qWhere q @ cs"
  by (induction cs arbitrary: q) (auto simp: addWhere_def)

lemma rest_addWheres:
  "qLimit (addWheres cs q) = qLimit q"
  "qOrderBy (addWheres cs q) = qOrderBy q"
  "qFrom (addWheres cs q) = qFrom q"
  by (induction cs arbitrary: q) (auto simp: addWhere_def)

lemma TypeOf_ModelData:
  "ModelData m = Some table \<Longrightarrow> \<exists>ty. TypeOf m = Some ty \<and> isStructOrPtrStruct ty"
  by (cases m) (simp_all add: isStructOrPtrStruct_def)

lemma assembleOne_qLimit: "qLimit (assembleOne E db table) = Some (1, 0)"
  by (simp add: assembleOne_def Let_def rest_addWheres rest_whereModelData rest_whereConditions
      addWhere_def Limit_def From_def Select_def QueryInstance_def)

lemma assembleOne_qFrom: "qFrom (assembleOne E db table) = TableName table"
  by (simp add: assembleOne_def Let_def rest_addWheres rest_whereModelData rest_whereConditions
      addWhere_def Limit_def From_def Select_def QueryInstance_def)

lemma assembleOne_qOrderBy: "qOrderBy (assembleOne E db table) = []"
  by (simp add: assembleOne_def Let_def rest_addWheres rest_whereModelData rest_whereConditions
      addWhere_def Limit_def From_def Select_def QueryInstance_def)

lemma assembleOne_qWhere:
  "qWhere (assembleOne E db table) =
     primaryFilter db table @ map whereCallOf (whereStatement db)
     @ inStructFilters table @ whereFromModel E (model db)"
  by (simp add: assembleOne_def Let_def qWhere_addWheres qWhere_whereModelData
      qWhere_whereConditions addWhere_def Limit_def From_def Select_def QueryInstance_def
      primaryFilter_def inStructFilters_def)

lemma GetOne_struct_unfold:
  assumes "raw_sqlStr db = []" and "ModelData m = Some table"
  shows "GetOne E rnd db log m getType =
     (case orderByFieldOf table of
        None \<Rightarrow> Panicked log
      | Some orderByField \<Rightarrow>
          (case orderOf table getType rnd orderByField of
             None \<Rightarrow> Panicked log
           | Some (field, dir) \<Rightarrow>
               Returned (driver E (QueryGet (OrderBy (VStr field) dir (assembleOne E db table))))
                 (reset db) (log @ [QueryGet (OrderBy (VStr field) dir (assembleOne E db table))])))"
proof -
  obtain ty where t: "TypeOf m = Some ty" "isStructOrPtrStruct ty"
    using TypeOf_ModelData [OF assms(2)] by blast
  show ?thesis
    using assms t by (simp add: GetOne_def Let_def split: option.splits)
qed

lemma GetOne_ordered:
  assumes "raw_sqlStr db = []" and "ModelData m = Some table"
    and "orderByFieldOf table = Some f" and "f \<noteq> []" and "getType \<noteq> TakeOne"
  shows "GetOne E rnd db log m getType =
     Returned
       (driver E (QueryGet (singleRowQuery E db table f (if getType = GetLast then Desc else Asc))))
       (reset db)
       (log @ [QueryGet (singleRowQuery E db table f (if getType = GetLast then Desc else Asc))])"
proof -
  have "orderOf table getType rnd f = Some (f, Some (if getType = GetLast then Desc else Asc))"
    using assms(4,5) by (cases getType) (simp_all add: orderOf_def)
  then show ?thesis
    using assms(3) by (simp add: GetOne_struct_unfold [OF assms(1,2)] singleRowQuery_def)
qed

lemma orderByFieldOf_primary:
  "Primaries table = p # ps \<Longrightarrow> orderByFieldOf table = Some (Name p)"
  by (simp add: orderByFieldOf_def primaryKeyOf_def)

lemma orderByFieldOf_first_column:
  "Primaries table = [] \<Longrightarrow> Columns table = c # cs \<Longrightarrow> orderByFieldOf table = Some (Name c)"
  by (simp add: orderByFieldOf_def primaryKeyOf_def)

lemma orderByFieldOf_columns:
  "Columns table \<noteq> [] \<Longrightarrow> \<exists>f. orderByFieldOf table = Some f"
  by (cases "primaryKeyOf table"; cases "Columns table") (simp_all add: orderByFieldOf_def)

lemma raw_primaryFromArgs: "raw_sqlStr (primaryFromArgs db args) = raw_sqlStr db"
  by (simp add: primaryFromArgs_def)

lemma randInt_nat:
  "randInt (int n - 1) e = (if n \<le> 1 then None else Some (int (e mod (n - 1))))"
proof (cases "n \<le> 1")
  case True
  then show ?thesis by (simp add: randInt_def)
next
  case False
  then have "int n - 1 = int (n - 1)" by linarith
  then have "randInt (int n - 1) e = randInt (int (n - 1)) e" by (rule arg_cong)
  also have "\<dots> = Some (int (e mod (n - 1)))"
    using False by (simp add: randInt_def zmod_int)
  finally show ?thesis using False by simp
qed

lemma randInt_10: "randInt 10 e = Some (int e mod 10)"
  by (simp add: randInt_def)

lemma orderOf_TakeOne:
  "orderOf table TakeOne rnd f =
     (if length (Columns table) \<le> 1 then None
      else Some (Name (Columns table ! (fst rnd mod (length (Columns table) - 1))),
                 if int (snd rnd) mod 10 mod 2 = 1 then Some Asc else Some Desc))"
  unfolding orderOf_def randInt_nat randInt_10 by simp

section \<open>Ordering of First and Last\<close>

text \<open>
  Claim C5. Let \<open>p\<close> be the declared primary key of the record type or, when the type
  declares none, its first declared column, and let its name be non-empty. Without a
  raw-SQL override, \<open>First\<close> on a record or pointer-to-record sends one query: the
  single-row assembly ordered ascending on \<open>p\<close>, with limit 1 and offset 0; \<open>Last\<close> sends
  the same assembly ordered descending on \<open>p\<close>.
\<close>

theorem First_Last_order:
  assumes "raw_sqlStr db = []" and "ModelData m = Some table"
    and "(\<exists>ps. Primaries table = p # ps) \<or>
         (Primaries table = [] \<and> (\<exists>cs. Columns table = p # cs))"
    and "Name p \<noteq> []"
  shows "First E rnd db log m args =
           Returned (driver E (QueryGet (singleRowQuery E (primaryFromArgs db args) table (Name p) Asc)))
             (reset db)
             (log @ [QueryGet (singleRowQuery E (primaryFromArgs db args) table (Name p) Asc)])
       \<and> Last E rnd db log m =
           Returned (driver E (QueryGet (singleRowQuery E db table (Name p) Desc)))
             (reset db) (log @ [QueryGet (singleRowQuery E db table (Name p) Desc)])
       \<and> (\<forall>db' d. qOrderBy (singleRowQuery E db' table (Name p) d) = [(VStr (Name p), Some d)]
             \<and> qLimit (singleRowQuery E db' table (Name p) d) = Some (1, 0)
             \<and> qFrom (singleRowQuery E db' table (Name p) d) = TableName table)"
proof -
  have f: "orderByFieldOf table = Some (Name p)"
    using assms(3) orderByFieldOf_primary orderByFieldOf_first_column by blast
  have 1: "First E rnd db log m args =
           Returned (driver E (QueryGet (singleRowQuery E (primaryFromArgs db args) table (Name p) Asc)))
             (reset db)
             (log @ [QueryGet (singleRowQuery E (primaryFromArgs db args) table (Name p) Asc)])"
    unfolding First_def
    using GetOne_ordered [of "primaryFromArgs db args" m table "Name p" GetFirst E rnd log]
      assms(1,2,4) f
    by (simp add: raw_primaryFromArgs reset_def)
  have 2: "Last E rnd db log m =
           Returned (driver E (QueryGet (singleRowQuery E db table (Name p) Desc)))
             (reset db) (log @ [QueryGet (singleRowQuery E db table (Name p) Desc)])"
    unfolding Last_def
    using GetOne_ordered [of db m table "Name p" GetLast E rnd log] assms(1,2,4) f
    by simp
  have 3: "qOrderBy (singleRowQuery E db' table (Name p) d) = [(VStr (Name p), Some d)]
         \<and> qLimit (singleRowQuery E db' table (Name p) d) = Some (1, 0)
         \<and> qFrom (singleRowQuery E db' table (Name p) d) = TableName table" for db' d
    by (simp add: singleRowQuery_def OrderBy_def assembleOne_qLimit assembleOne_qOrderBy
        assembleOne_qFrom)
  show ?thesis using 1 2 3 by blast
qed

theorem First_Last_order_witness:
  "First exampleEnv (0, 0) emptyDB [] (ModelPtrStruct userTable) [] =
     Returned None emptyDB [QueryGet (singleRowQuery exampleEnv emptyDB userTable ''Id'' Asc)]
   \<and> Last exampleEnv (0, 0) emptyDB [] (ModelPtrStruct userTable) =
     Returned None emptyDB [QueryGet (singleRowQuery exampleEnv emptyDB userTable ''Id'' Desc)]
   \<and> qOrderBy (singleRowQuery exampleEnv emptyDB userTable ''Id'' Desc) = [(VStr ''Id'', Some Desc)]
   \<and> qLimit (singleRowQuery exampleEnv emptyDB userTable ''Id'' Asc) = Some (1, 0)"
proof -
  have h1: "raw_sqlStr emptyDB = []" by (simp add: emptyDB_def)
  have h2: "ModelData (ModelPtrStruct userTable) = Some userTable" by simp
  have h3: "(\<exists>ps. Primaries userTable = \<lparr>Name = ''Id'', HasValue = True\<rparr> # ps) \<or>
         (Primaries userTable = [] \<and> (\<exists>cs. Columns userTable = \<lparr>Name = ''Id'', HasValue = True\<rparr> # cs))"
    by (simp add: userTable_def)
  have h4: "Name \<lparr>Name = ''Id'', HasValue = True\<rparr> \<noteq> []" by simp
  from First_Last_order [OF h1 h2 h3 h4, of exampleEnv "(0, 0)" "[]" "[]"]
  show ?thesis by (simp add: exampleEnv_def primaryFromArgs_def reset_def)
qed

section \<open>Order of the conditions in single-row retrieval\<close>

text \<open>
  Claim C8. Without a raw-SQL override, on a record or pointer-to-record whose type has
  a primary key \<open>p\<close>: \<open>First\<close> called with a non-nil positional argument \<open>a\<close> sends one
  query whose conditions are, in this order, the equality \<open>p = a\<close>, then the configured
  where-conditions in configuration order, then (when the record carries data) one
  equality per populated column, then what \<open>whereFromModel\<close> adds. More generally every
  query \<open>GetOne\<close> sends, whatever the strategy, lists the condition of the primary-key slot
  first, the configured conditions next and the in-struct equalities after them.
\<close>

theorem GetOne_where_order:
  assumes "raw_sqlStr db = []" and "ModelData m = Some table"
    and "Primaries table = p # ps" and "a \<noteq> VNil"
  shows "(\<exists>q. First E rnd db log m (a # args) =
             Returned (driver E (QueryGet q)) (reset db) (log @ [QueryGet q])
           \<and> qWhere q =
               WhereC (VStr (Name p)) Eq a # map whereCallOf (whereStatement db)
               @ inStructFilters table @ whereFromModel E (model db))
       \<and> (\<forall>getType r db' log'. GetOne E rnd db log m getType = Returned r db' log' \<longrightarrow>
            (\<exists>q. log' = log @ [QueryGet q]
               \<and> qWhere q =
                   primaryFilter db table @ map whereCallOf (whereStatement db)
                   @ inStructFilters table @ whereFromModel E (model db)))"
proof (intro conjI allI impI)
  let ?db = "primaryFromArgs db (a # args)"
  have f: "orderByFieldOf table = Some (Name p)"
    using assms(3) by (rule orderByFieldOf_primary)
  obtain d where o: "orderOf table GetFirst rnd (Name p) = Some (Name p, d)"
    by (cases "Name p = []") (simp_all add: orderOf_def)
  let ?q = "OrderBy (VStr (Name p)) d (assembleOne E ?db table)"
  have raw: "raw_sqlStr ?db = []" using assms(1) by (simp add: raw_primaryFromArgs)
  have r: "First E rnd db log m (a # args) =
      Returned (driver E (QueryGet ?q)) (reset db) (log @ [QueryGet ?q])"
    using f o by (simp add: First_def GetOne_struct_unfold [OF raw assms(2)] reset_def)
  have w: "qWhere ?q =
      WhereC (VStr (Name p)) Eq a # map whereCallOf (whereStatement db)
      @ inStructFilters table @ whereFromModel E (model db)"
    using assms(3,4)
    by (simp add: OrderBy_def assembleOne_qWhere primaryFromArgs_def primaryKeyOf_def
        primaryFilter_def)
  show "\<exists>q. First E rnd db log m (a # args) =
             Returned (driver E (QueryGet q)) (reset db) (log @ [QueryGet q])
           \<and> qWhere q =
               WhereC (VStr (Name p)) Eq a # map whereCallOf (whereStatement db)
               @ inStructFilters table @ whereFromModel E (model db)"
    using r w by blast
next
  fix getType r db' log'
  assume "GetOne E rnd db log m getType = Returned r db' log'"
  then obtain field dir where
    "log' = log @ [QueryGet (OrderBy (VStr field) dir (assembleOne E db table))]"
    by (auto simp: GetOne_struct_unfold [OF assms(1,2)] split: option.splits)
  moreover have "qWhere (OrderBy (VStr field) dir (assembleOne E db table)) =
      primaryFilter db table @ map whereCallOf (whereStatement db)
      @ inStructFilters table @ whereFromModel E (model db)"
    by (simp add: OrderBy_def assembleOne_qWhere)
  ultimately show "\<exists>q. log' = log @ [QueryGet q]
      \<and> qWhere q =
          primaryFilter db table @ map whereCallOf (whereStatement db)
          @ inStructFilters table @ whereFromModel E (model db)"
    by blast
qed

theorem GetOne_where_order_witness:
  "\<exists>q. First exampleEnv (0, 0) whereDB [] (ModelPtrStruct userTable) [VInt 7] =
         Returned None emptyDB [QueryGet q]
       \<and> qWhere q =
           [WhereC (VStr ''Id'') Eq (VInt 7),
            WhereOrC (VStr ''Age'') Eq (VInt 42),
            WhereGroupC [Condition (VStr ''Name'') Eq (VStr ''Cat'') And [],
                         Condition (VStr ''Name'') Eq (VStr ''Dog'') Or []],
            WhereC (VStr ''Id'') Eq (VInt 103),
            WhereC (VStr ''Name'') Eq (VStr ''Cat'')]"
proof -
  have h1: "raw_sqlStr whereDB = []" by (simp add: whereDB_def emptyDB_def)
  have h2: "ModelData (ModelPtrStruct userTable) = Some userTable" by simp
  have h3: "Primaries userTable = \<lparr>Name = ''Id'', HasValue = True\<rparr> # []"
    by (simp add: userTable_def)
  have h4: "VInt 7 \<noteq> VNil" by simp
  from GetOne_where_order [OF h1 h2 h3 h4, of exampleEnv "(0, 0)" "[]" "[]"]
  have "\<exists>q. First exampleEnv (0, 0) whereDB [] (ModelPtrStruct userTable) [VInt 7] =
             Returned (driver exampleEnv (QueryGet q)) (reset whereDB) ([] @ [QueryGet q])
           \<and> qWhere q =
               WhereC (VStr (Name \<lparr>Name = ''Id'', HasValue = True\<rparr>)) Eq (VInt 7)
               # map whereCallOf (whereStatement whereDB)
               @ inStructFilters userTable @ whereFromModel exampleEnv (model whereDB)"
    by blast
  then show ?thesis
    by (simp add: exampleEnv_def reset_def whereDB_def emptyDB_def whereCallOf_def
        inStructFilters_def userTable_def valueOf_def)
qed

section \<open>The random choice of Take\<close>

text \<open>
  Claim C10. Without a raw-SQL override, on a record or pointer-to-record: \<open>Take\<close> draws
  the index of its order-by column as a sample below the number of columns minus one.
  With at most one declared column that bound is not positive and the call panics. With
  two or more columns the call sends one query, ordered by the column at an index
  strictly below the last one; when the column names are distinct, the order-by field is
  never the name of the last declared column.
\<close>

theorem Take_excludes_last_column:
  assumes "raw_sqlStr db = []" and "ModelData m = Some table"
  shows "(length (Columns table) \<le> 1 \<longrightarrow> Take E rnd db log m = Panicked log)
       \<and> (2 \<le> length (Columns table) \<longrightarrow>
            fst rnd mod (length (Columns table) - 1) < length (Columns table) - 1
          \<and> (\<exists>d. Take E rnd db log m =
                 Returned
                   (driver E (QueryGet (singleRowQuery E db table
                      (Name (Columns table ! (fst rnd mod (length (Columns table) - 1)))) d)))
                   (reset db)
                   (log @ [QueryGet (singleRowQuery E db table
                      (Name (Columns table ! (fst rnd mod (length (Columns table) - 1)))) d)]))
          \<and> (distinct (map Name (Columns table)) \<longrightarrow>
               Name (Columns table ! (fst rnd mod (length (Columns table) - 1)))
               \<noteq> Name (last (Columns table))))"
proof (intro conjI impI)
  assume "length (Columns table) \<le> 1"
  then show "Take E rnd db log m = Panicked log"
    by (simp add: Take_def GetOne_struct_unfold [OF assms] orderOf_TakeOne split: option.splits)
next
  let ?cols = "Columns table"
  let ?n = "fst rnd mod (length ?cols - 1)"
  assume two: "2 \<le> length ?cols"
  then show lt: "?n < length ?cols - 1" by simp
  {
    from two have "?cols \<noteq> []" by auto
    then obtain f where f: "orderByFieldOf table = Some f"
      using orderByFieldOf_columns by blast
    have big: "\<not> length ?cols \<le> 1" using two by simp
    show "\<exists>d. Take E rnd db log m =
        Returned (driver E (QueryGet (singleRowQuery E db table (Name (?cols ! ?n)) d)))
          (reset db) (log @ [QueryGet (singleRowQuery E db table (Name (?cols ! ?n)) d)])"
      using f big
      by (auto simp: Take_def GetOne_struct_unfold [OF assms] orderOf_TakeOne singleRowQuery_def)
  }
  {
    assume dist: "distinct (map Name ?cols)"
    have nonempty: "?cols \<noteq> []" using two by auto
    have i: "?n < length (map Name ?cols)" and j: "length ?cols - 1 < length (map Name ?cols)"
      using lt by simp_all
    have "?n \<noteq> length ?cols - 1" using lt by simp
    then have "map Name ?cols ! ?n \<noteq> map Name ?cols ! (length ?cols - 1)"
      using nth_eq_iff_index_eq [OF dist i j] by blast
    moreover have "map Name ?cols ! ?n = Name (?cols ! ?n)"
      using lt by (intro nth_map) simp
    moreover have "map Name ?cols ! (length ?cols - 1) = Name (?cols ! (length ?cols - 1))"
      using lt by (intro nth_map) simp
    ultimately show "Name (?cols ! ?n) \<noteq> Name (last ?cols)"
      using nonempty by (simp add: last_conv_nth)
  }
qed

theorem Take_excludes_last_column_witness:
  "Take exampleEnv (5, 3) emptyDB [] (ModelStruct tokenTable) = Panicked []
   \<and> (\<exists>d. Take exampleEnv (5, 3) emptyDB [] (ModelStruct userTable) =
        Returned None emptyDB [QueryGet (singleRowQuery exampleEnv emptyDB userTable ''Name'' d)])
   \<and> ''Name'' \<noteq> Name (last (Columns userTable))"
proof -
  have h1: "raw_sqlStr emptyDB = []" by (simp add: emptyDB_def)
  have a: "Take exampleEnv (5, 3) emptyDB [] (ModelStruct tokenTable) = Panicked []"
  proof -
    have t1: "ModelData (ModelStruct tokenTable) = Some tokenTable" by simp
    have t2: "length (Columns tokenTable) \<le> 1" by (simp add: tokenTable_def)
    from Take_excludes_last_column [OF h1 t1, of exampleEnv "(5, 3)" "[]"] t2
    show ?thesis by blast
  qed
  have len: "length (Columns userTable) = 3" by (simp add: userTable_def)
  have idx: "fst (5::nat, 3::nat) mod (length (Columns userTable) - 1) = 1" by (simp add: len)
  have col: "Name (Columns userTable ! 1) = ''Name''" by (simp add: userTable_def)
  have dist: "distinct (map Name (Columns userTable))" by (simp add: userTable_def)
  have two: "2 \<le> length (Columns userTable)" by (simp add: len)
  have h2: "ModelData (ModelStruct userTable) = Some userTable" by simp
  from Take_excludes_last_column [OF h1 h2, of exampleEnv "(5, 3)" "[]"] two dist
  have "(\<exists>d. Take exampleEnv (5, 3) emptyDB [] (ModelStruct userTable) =
           Returned
             (driver exampleEnv (QueryGet (singleRowQuery exampleEnv emptyDB userTable
                (Name (Columns userTable ! (fst (5::nat, 3::nat) mod (length (Columns userTable) - 1)))) d)))
             (reset emptyDB)
             ([] @ [QueryGet (singleRowQuery exampleEnv emptyDB userTable
                (Name (Columns userTable ! (fst (5::nat, 3::nat) mod (length (Columns userTable) - 1)))) d)]))
      \<and> Name (Columns userTable ! (fst (5::nat, 3::nat) mod (length (Columns userTable) - 1)))
          \<noteq> Name (last (Columns userTable))"
    by blast
  then have b: "(\<exists>d. Take exampleEnv (5, 3) emptyDB [] (ModelStruct userTable) =
        Returned None emptyDB [QueryGet (singleRowQuery exampleEnv emptyDB userTable ''Name'' d)])
     \<and> ''Name'' \<noteq> Name (last (Columns userTable))"
    unfolding idx col by (simp add: exampleEnv_def reset_def)
  show ?thesis using a b by blast
qed

text \<open>
  Claim C4 (a defect of the code; the claim is not what the code does). \<open>Take\<close> on a
  well-shaped record that declares exactly one column does not produce a query: whatever
  the random source yields, the sampling bound is zero and the call panics.
\<close>

theorem Take_single_column_panics:
  "\<forall>rnd. Take exampleEnv rnd emptyDB [] (ModelStruct tokenTable) = Panicked []"
  by (simp add: Take_def GetOne_def emptyDB_def isStructOrPtrStruct_def orderByFieldOf_def
      primaryKeyOf_def tokenTable_def orderOf_def randInt_def Let_def)

section \<open>Update: the guard against an unconditioned update\<close>

lemma updateByStruct_no_condition:
  assumes "ModelData m = Some table" and "whereStatement db = []"
    and "Value (capturedPrimary E db table) = VNil \<or> primaryKeyOf table = VNil"
  shows "updateByStruct E db log m =
     Returned (Some MissingWhere) (db\<lparr>wherePrimaryCondition := capturedPrimary E db table\<rparr>) log"
proof -
  obtain columns vals wpc where u:
    "updateColumns E table (omitsSelectStatement db) (primaryKeyOf table) (Columns table)
       ([], [], wherePrimaryCondition db) = (columns, vals, wpc)"
    by (cases "updateColumns E table (omitsSelectStatement db) (primaryKeyOf table)
       (Columns table) ([], [], wherePrimaryCondition db)") auto
  then have c: "capturedPrimary E db table = wpc" by (simp add: capturedPrimary_def)
  show ?thesis
    using assms u c by (auto simp: updateByStruct_def Let_def)
qed

lemma capturedPrimary_model:
  "capturedPrimary E (db\<lparr>model := x\<rparr>) table = capturedPrimary E db table"
  by (simp add: capturedPrimary_def)

text \<open>
  Claim C1, as amended. Without a raw-SQL override, let \<open>target\<close> be the record the
  full-model path works on: the argument itself on the struct path, or the bound model
  after the map entries have been assigned on the map path with a bound model. When no
  where-condition is configured and the primary-key condition in effect holds no non-nil
  value (or the type has no primary key), the update fails with the missing-WHERE error,
  handed to the fatal logger, and no statement has been sent. On the map path with no
  bound model the failure is the missing-model error instead, again with no statement.
\<close>

theorem Update_without_condition:
  assumes "raw_sqlStr db = []" and "whereStatement db = []"
    and "ModelData target = Some table"
    and "Value (capturedPrimary E db table) = VNil \<or> primaryKeyOf table = VNil"
    and "m = target \<or>
         (\<exists>entries. m = ModelMap entries \<and> model db \<noteq> ModelNil
            \<and> target = setFromMap E entries (model db))"
  shows "Update E db log m = Fatal MissingWhere log
       \<and> (model db = ModelNil \<longrightarrow> Update E db log (ModelMap es) = Fatal MissingModel log)"
proof
  from assms(5) show "Update E db log m = Fatal MissingWhere log"
  proof
    assume m: "m = target"
    obtain ty where t: "TypeOf m = Some ty" "isStructOrPtrStruct ty"
      using TypeOf_ModelData assms(3) m by blast
    then have k: "Kind ty \<noteq> KMap" by (auto simp: isStructOrPtrStruct_def)
    have "updateByStruct E db log m =
        Returned (Some MissingWhere) (db\<lparr>wherePrimaryCondition := capturedPrimary E db table\<rparr>) log"
      using updateByStruct_no_condition assms(2,3,4) m by blast
    then show ?thesis
      using assms(1) t k by (simp add: Update_def dispatchUpdate_def)
  next
    assume "\<exists>entries. m = ModelMap entries \<and> model db \<noteq> ModelNil
            \<and> target = setFromMap E entries (model db)"
    then obtain entries where m: "m = ModelMap entries" and b: "model db \<noteq> ModelNil"
      and tg: "target = setFromMap E entries (model db)" by blast
    let ?db = "db\<lparr>model := target\<rparr>"
    have "updateByStruct E ?db log target =
        Returned (Some MissingWhere) (?db\<lparr>wherePrimaryCondition := capturedPrimary E ?db table\<rparr>) log"
      using assms(2,3,4) by (intro updateByStruct_no_condition) (simp_all add: capturedPrimary_model)
    then show ?thesis
      using assms(1) m b tg by (simp add: Update_def dispatchUpdate_def updateByMap_def Let_def)
  qed
next
  show "model db = ModelNil \<longrightarrow> Update E db log (ModelMap es) = Fatal MissingModel log"
    using assms(1) by (simp add: Update_def dispatchUpdate_def updateByMap_def)
qed

theorem Update_without_condition_witness:
  "Update exampleEnv emptyDB [] (ModelStruct tokenTable) = Fatal MissingWhere []
   \<and> Update exampleEnv emptyDB [] (ModelStruct draftTable) = Fatal MissingWhere []
   \<and> Update exampleEnv boundDB [] (ModelMap [(''Token'', VStr ''abc'')]) = Fatal MissingWhere []
   \<and> Update exampleEnv emptyDB [] (ModelMap [(''Token'', VStr ''abc'')]) = Fatal MissingModel []"
proof -
  have r: "raw_sqlStr emptyDB = []" "whereStatement emptyDB = []" "model emptyDB = ModelNil"
    by (simp_all add: emptyDB_def)
  have pk: "primaryKeyOf tokenTable = VNil" by (simp add: primaryKeyOf_def tokenTable_def)
  have c1: "Value (capturedPrimary exampleEnv emptyDB tokenTable) = VNil
      \<or> primaryKeyOf tokenTable = VNil"
    using pk by simp
  have s: "ModelStruct tokenTable = ModelStruct tokenTable \<or>
         (\<exists>entries. ModelStruct tokenTable = ModelMap entries \<and> model emptyDB \<noteq> ModelNil
            \<and> ModelStruct tokenTable = setFromMap exampleEnv entries (model emptyDB))"
    by simp
  have md: "ModelData (ModelStruct tokenTable) = Some tokenTable" by simp
  note a = Update_without_condition [OF r(1) r(2) md c1 s, of "[]" "[(''Token'', VStr ''abc'')]"]
  have c3: "Value (capturedPrimary exampleEnv emptyDB draftTable) = VNil
      \<or> primaryKeyOf draftTable = VNil"
    by (simp add: capturedPrimary_def exampleEnv_def emptyDB_def draftTable_def primaryKeyOf_def
        valueOf_def)
  have s3: "ModelStruct draftTable = ModelStruct draftTable \<or>
         (\<exists>entries. ModelStruct draftTable = ModelMap entries \<and> model emptyDB \<noteq> ModelNil
            \<and> ModelStruct draftTable = setFromMap exampleEnv entries (model emptyDB))"
    by simp
  have md3: "ModelData (ModelStruct draftTable) = Some draftTable" by simp
  note c = Update_without_condition [OF r(1) r(2) md3 c3 s3, of "[]" "[]"]
  have rb: "raw_sqlStr boundDB = []" "whereStatement boundDB = []"
    by (simp_all add: boundDB_def emptyDB_def)
  let ?t = "setFromMap exampleEnv [(''Token'', VStr ''abc'')] (model boundDB)"
  obtain table where t: "ModelData ?t = Some table" "primaryKeyOf table = VNil"
    by (simp add: boundDB_def exampleEnv_def setField_def tokenTable_def primaryKeyOf_def)
  have c2: "Value (capturedPrimary exampleEnv boundDB table) = VNil \<or> primaryKeyOf table = VNil"
    using t(2) by simp
  have sb: "ModelMap [(''Token'', VStr ''abc'')] = ?t \<or>
         (\<exists>entries. ModelMap [(''Token'', VStr ''abc'')] = ModelMap entries
            \<and> model boundDB \<noteq> ModelNil \<and> ?t = setFromMap exampleEnv entries (model boundDB))"
    by (simp add: boundDB_def)
  note b = Update_without_condition [OF rb(1) rb(2) t(1) c2 sb, of "[]" "[]"]
  show ?thesis using a b c r(3) by simp
qed

text \<open>
  The claim as worded covers the map path without a bound model; there the error is
  not the missing-WHERE one.
\<close>

theorem Update_map_unbound_counterexample:
  "raw_sqlStr emptyDB = [] \<and> whereStatement emptyDB = []
   \<and> Value (wherePrimaryCondition emptyDB) = VNil
   \<and> Update exampleEnv emptyDB [] (ModelMap [(''Name'', VStr ''Cat'')]) = Fatal MissingModel []
   \<and> Update exampleEnv emptyDB [] (ModelMap [(''Name'', VStr ''Cat'')]) \<noteq> Fatal MissingWhere []"
  by (simp add: emptyDB_def zeroCondition_def Update_def dispatchUpdate_def updateByMap_def)

section \<open>Update: errors end the process\<close>

text \<open>
  Claim C9, as amended. Whichever path \<open>Update\<close> dispatches to (raw statement, map,
  struct), a non-nil error of that path goes to the fatal logger and is not returned.
  Hence whenever \<open>Update\<close> returns, the error it returns is nil (and the state is reset).
  When there is no raw override and the argument is a value with a type, of a kind that
  is neither map nor struct nor pointer to struct, nothing is executed and nil is
  returned.
\<close>

theorem Update_errors_are_fatal:
  "(raw_sqlStr db \<noteq> [] \<and> driver E (RawExec (raw_sqlStr db) (raw_args db)) = Some err \<longrightarrow>
      Update E db log m = Fatal err (log @ [RawExec (raw_sqlStr db) (raw_args db)]))
   \<and> (raw_sqlStr db = [] \<and> TypeOf m = Some ty \<and> Kind ty = KMap
        \<and> updateByMap E db log m = Returned (Some err) db' log' \<longrightarrow>
      Update E db log m = Fatal err log')
   \<and> (raw_sqlStr db = [] \<and> TypeOf m = Some ty \<and> Kind ty \<noteq> KMap \<and> isStructOrPtrStruct ty
        \<and> updateByStruct E db log m = Returned (Some err) db' log' \<longrightarrow>
      Update E db log m = Fatal err log')
   \<and> (\<forall>r db'' log''. Update E db log m = Returned r db'' log'' \<longrightarrow> r = None \<and> db'' = emptyDB)
   \<and> (raw_sqlStr db = [] \<and> TypeOf m = Some ty \<and> Kind ty \<noteq> KMap \<and> \<not> isStructOrPtrStruct ty \<longrightarrow>
      Update E db log m = Returned None emptyDB log)"
proof (intro conjI impI allI)
  assume "raw_sqlStr db \<noteq> [] \<and> driver E (RawExec (raw_sqlStr db) (raw_args db)) = Some err"
  then show "Update E db log m = Fatal err (log @ [RawExec (raw_sqlStr db) (raw_args db)])"
    by (simp add: Update_def dispatchUpdate_def Let_def)
next
  assume "raw_sqlStr db = [] \<and> TypeOf m = Some ty \<and> Kind ty = KMap
        \<and> updateByMap E db log m = Returned (Some err) db' log'"
  then show "Update E db log m = Fatal err log'"
    by (simp add: Update_def dispatchUpdate_def)
next
  assume "raw_sqlStr db = [] \<and> TypeOf m = Some ty \<and> Kind ty \<noteq> KMap \<and> isStructOrPtrStruct ty
        \<and> updateByStruct E db log m = Returned (Some err) db' log'"
  then show "Update E db log m = Fatal err log'"
    by (simp add: Update_def dispatchUpdate_def)
next
  fix r db'' log''
  assume "Update E db log m = Returned r db'' log''"
  then show "r = None" and "db'' = emptyDB"
    by (auto simp: Update_def reset_def split: outcome.splits option.splits)
next
  assume "raw_sqlStr db = [] \<and> TypeOf m = Some ty \<and> Kind ty \<noteq> KMap \<and> \<not> isStructOrPtrStruct ty"
  then show "Update E db log m = Returned None emptyDB log"
    by (simp add: Update_def dispatchUpdate_def reset_def)
qed

theorem Update_errors_are_fatal_witness:
  "Update failingEnv rawDB [] ModelOther =
     Fatal (DriverError ''connection refused'') [RawExec ''UPDATE users SET age = 1'' []]
   \<and> Update exampleEnv emptyDB [] (ModelMap []) = Fatal MissingModel []
   \<and> Update exampleEnv emptyDB [] (ModelStruct tokenTable) = Fatal MissingWhere []
   \<and> Update exampleEnv emptyDB [] ModelOther = Returned None emptyDB []"
proof -
  have r: "raw_sqlStr emptyDB = []" "whereStatement emptyDB = []" "model emptyDB = ModelNil"
    by (simp_all add: emptyDB_def)
  have 1: "Update failingEnv rawDB [] ModelOther =
     Fatal (DriverError ''connection refused'') [RawExec ''UPDATE users SET age = 1'' []]"
    using Update_errors_are_fatal [of rawDB failingEnv "DriverError ''connection refused''"
        "[]" ModelOther TOther emptyDB "[]"]
    by (simp add: rawDB_def failingEnv_def exampleEnv_def emptyDB_def)
  have 2: "Update exampleEnv emptyDB [] (ModelMap []) = Fatal MissingModel []"
    using Update_errors_are_fatal [of emptyDB exampleEnv MissingModel "[]" "ModelMap []" TMap
        emptyDB "[]"] r
    by (simp add: updateByMap_def)
  have s: "updateByStruct exampleEnv emptyDB [] (ModelStruct tokenTable) =
      Returned (Some MissingWhere)
        (emptyDB\<lparr>wherePrimaryCondition := capturedPrimary exampleEnv emptyDB tokenTable\<rparr>) []"
    by (rule updateByStruct_no_condition)
      (simp_all add: r primaryKeyOf_def tokenTable_def)
  have 3: "Update exampleEnv emptyDB [] (ModelStruct tokenTable) = Fatal MissingWhere []"
    using Update_errors_are_fatal [of emptyDB exampleEnv MissingWhere "[]" "ModelStruct tokenTable"
        TStruct "emptyDB\<lparr>wherePrimaryCondition := capturedPrimary exampleEnv emptyDB tokenTable\<rparr>"
        "[]"] r s
    by (simp add: isStructOrPtrStruct_def)
  have 4: "Update exampleEnv emptyDB [] ModelOther = Returned None emptyDB []"
    using Update_errors_are_fatal [of emptyDB exampleEnv MissingWhere "[]" ModelOther TOther
        emptyDB "[]"] r
    by (simp add: isStructOrPtrStruct_def)
  show ?thesis using 1 2 3 4 by simp
qed

text \<open>
  The claim as worded covers every argument that is neither a map nor a record. The nil
  interface is one, and it has no type to ask for its kind: with no raw override the
  call panics, so nil is not returned.
\<close>

theorem Update_nil_argument_counterexample:
  "raw_sqlStr emptyDB = [] \<and> TypeOf ModelNil = None
   \<and> Update exampleEnv emptyDB [] ModelNil = Panicked []
   \<and> Update exampleEnv emptyDB [] ModelNil \<noteq> Returned None emptyDB []"
  by (simp add: Update_def dispatchUpdate_def emptyDB_def)

section \<open>Update: the SET clause\<close>

lemma uSet_setValues:
  "uSet (setValues table cs u) =
     uSet u @ map (\<lambda>c. (Name c, valueOf table (Name c))) (filter HasValue cs)"
  by (induction cs arbitrary: u) (auto simp: SetPair_def)

text \<open>
  Claim C3 (a defect of the code; the claim is not what the code does). The first loop
  applies the update policy and the omit list to build a column list that nothing reads;
  the SET pairs come from the last loop, which takes every populated column. Here the
  omitted column \<open>Title\<close> and the excluded column \<open>CreatedAt\<close> are both set.
\<close>

theorem omitted_column_is_set:
  "\<exists>u. Update exampleEnv omitDB [] (ModelStruct articleTable) =
         Returned None emptyDB [UpdateExec u]
       \<and> uSet u = [(''Id'', VInt 7), (''Title'', VStr ''Go''), (''CreatedAt'', VInt 1700000000)]
       \<and> VStr ''Title'' \<in> set (omitsSelectStatement omitDB)
       \<and> \<not> CanColumnBeAddOrUpdate exampleEnv articleTable \<lparr>Name = ''CreatedAt'', HasValue = True\<rparr>"
  by (simp add: Update_def dispatchUpdate_def isStructOrPtrStruct_def updateByStruct_def
      omitDB_def emptyDB_def exampleEnv_def articleTable_def primaryKeyOf_def valueOf_def
      zeroCondition_def Let_def UpdateTable_def UpdateInstance_def addUWhere_def SetPair_def
      reset_def)

section \<open>Reset on the exit paths\<close>

text \<open>
  Claim C2 (a defect of the code; the claim is not what the code does). The shape
  checks of \<open>GetOne\<close> and \<open>Find\<close>, the id-list check of \<open>Find\<close> and a failed query of
  \<open>Find\<close> return before the reset: the configured where-conditions are still in the
  builder state afterwards.
\<close>

theorem early_returns_keep_state:
  "GetOne exampleEnv (0, 0) whereDB [] ModelOther GetFirst =
     Returned (Some InvalidModel) whereDB []
   \<and> Find exampleEnv whereDB [] ModelOther [] = Returned (0, Some InvalidModel) whereDB []
   \<and> Find exampleEnv whereDB [] (ModelPtrSlice userTable) [VInt 7] =
       Returned (0, Some InvalidParams) whereDB []
   \<and> (\<exists>log'. Find failingEnv whereDB [] (ModelPtrSlice userTable) [] =
       Returned (0, Some (DriverError ''connection refused'')) whereDB log')
   \<and> whereStatement whereDB \<noteq> []
   \<and> whereDB \<noteq> reset whereDB"
proof -
  have r: "raw_sqlStr whereDB = []" by (simp add: whereDB_def emptyDB_def)
  have pk: "primaryKeyOf userTable = VStr ''Id''" by (simp add: primaryKeyOf_def userTable_def)
  have 1: "GetOne exampleEnv (0, 0) whereDB [] ModelOther GetFirst =
     Returned (Some InvalidModel) whereDB []"
    using r by (simp add: GetOne_def isStructOrPtrStruct_def)
  have 2: "Find exampleEnv whereDB [] ModelOther [] = Returned (0, Some InvalidModel) whereDB []"
    using r by (simp add: Find_def isPtrSlice_def)
  have 3: "Find exampleEnv whereDB [] (ModelPtrSlice userTable) [VInt 7] =
       Returned (0, Some InvalidParams) whereDB []"
    using r pk by (simp add: Find_def isPtrSlice_def Let_def)
  have 4: "\<exists>log'. Find failingEnv whereDB [] (ModelPtrSlice userTable) [] =
       Returned (0, Some (DriverError ''connection refused'')) whereDB log'"
    using r pk by (simp add: Find_def isPtrSlice_def Let_def findExec_def failingEnv_def)
  have 5: "whereStatement whereDB \<noteq> []" by (simp add: whereDB_def)
  have "whereStatement (reset whereDB) = []" by (simp add: reset_def emptyDB_def)
  with 5 have 6: "whereDB \<noteq> reset whereDB" by metis
  show ?thesis using 1 2 3 4 5 6 by simp
qed

section \<open>Find: assembly, count query and id list\<close>

lemma rest_joins:
  "qWhere (joins js q) = qWhere q"
  by (induction js arbitrary: q) (auto simp: JoinQ_def)

lemma rest_havings:
  "qWhere (havings cs q) = qWhere q"
  by (induction cs arbitrary: q) (auto simp: Having_def)

lemma rest_orderBys:
  "qWhere (orderBys os q) = qWhere q"
  by (induction os arbitrary: q) (auto simp: OrderBy_def)

lemma assembleFind_qWhere:
  "qWhere (assembleFind E db table) =
     (if Value (wherePrimaryCondition db) \<noteq> VNil \<and> primaryKeyOf table \<noteq> VNil
      then [WhereConditionC [wherePrimaryCondition db]] else [])
     @ map whereCallOf (whereStatement db) @ whereFromModel E (model db)"
  by (simp add: assembleFind_def Let_def rest_orderBys rest_havings rest_joins
      qWhere_addWheres qWhere_whereConditions addWhere_def Limit_def Fetch_def GroupBy_def
      From_def Select_def QueryInstance_def)

lemma countQuery_orderBys: "countQuery (orderBys os q) = countQuery q"
  by (induction os arbitrary: q) (auto simp: OrderBy_def countQuery_def)

lemma countQuery_Limit: "countQuery (Limit l off q) = countQuery q"
  by (simp add: countQuery_def Limit_def)

lemma countQuery_Fetch: "countQuery (Fetch off f q) = countQuery q"
  by (simp add: countQuery_def Fetch_def)

lemma countQuery_assembleFind_limit:
  "countQuery (assembleFind E (db\<lparr>limit_Limit := L, limit_Offset := off\<rparr>) table) =
   countQuery (assembleFind E db table)"
  by (simp add: assembleFind_def Let_def countQuery_orderBys countQuery_Limit countQuery_Fetch)

lemma processModel_shape:
  "processModel m = Some table \<Longrightarrow> \<exists>ty. TypeOf m = Some ty \<and> isPtrSlice ty"
  by (cases m) (simp_all add: isPtrSlice_def)

lemma Find_unfold:
  assumes "raw_sqlStr db = []" and "processModel m = Some table"
  shows "Find E db log m params =
     (if length params > 0 \<and> primaryKeyOf table \<noteq> VNil then
        (case TypeOfVal (hd params) of
           None \<Rightarrow> Panicked log
         | Some ty \<Rightarrow>
             if Kind ty \<noteq> KSlice then Returned (0, Some InvalidParams) db log
             else findExec E (findDB db table params) log
                    (assembleFind E (findDB db table params) table))
      else findExec E (findDB db table params) log (assembleFind E (findDB db table params) table))"
proof -
  obtain ty where t: "TypeOf m = Some ty" "isPtrSlice ty"
    using processModel_shape [OF assms(2)] by blast
  show ?thesis
    using assms t by (simp add: Find_def Let_def findDB_def split: option.splits)
qed

lemma Find_shape:
  assumes "raw_sqlStr db = []" and "Find E db log m params = Returned (t, None) d l"
  shows "\<exists>table. processModel m = Some table"
proof (cases "processModel m")
  case None
  with assms show ?thesis
    by (auto simp: Find_def Let_def split: option.splits if_splits)
next
  case (Some table)
  then show ?thesis by blast
qed

lemma findExec_success:
  assumes "findExec E db log q = Returned (t, None) d l"
  shows "t = counted E (QueryCount (countQuery q)) \<and> d = reset db
       \<and> l = log @ [QuerySelect q, QueryCount (countQuery q)]"
  using assms by (auto simp: findExec_def Let_def split: option.splits)

lemma Find_success:
  assumes "raw_sqlStr db = []" and "Find E db log m params = Returned (t, None) d l"
  shows "\<exists>table. processModel m = Some table
       \<and> t = counted E (QueryCount (countQuery (assembleFind E (findDB db table params) table)))
       \<and> l = log @ [QuerySelect (assembleFind E (findDB db table params) table),
                     QueryCount (countQuery (assembleFind E (findDB db table params) table))]"
proof -
  obtain table where p: "processModel m = Some table"
    using Find_shape [OF assms] by blast
  have "findExec E (findDB db table params) log (assembleFind E (findDB db table params) table)
      = Returned (t, None) d l"
    using assms(2) unfolding Find_unfold [OF assms(1) p]
    by (auto split: if_splits option.splits)
  from findExec_success [OF this] p show ?thesis by blast
qed

lemma Find_raw_total:
  assumes "raw_sqlStr db \<noteq> []" and "Find E db log m params = Returned (t, e) d l"
  shows "t = 0"
  using assms by (simp add: Find_def Let_def)

lemma findDB_limit:
  "findDB (db\<lparr>limit_Limit := L, limit_Offset := off\<rparr>) table params =
   (findDB db table params)\<lparr>limit_Limit := L, limit_Offset := off\<rparr>"
  by (simp add: findDB_def)

text \<open>
  Claim C6. Modelled from the spec: the count query is the assembled query without
  limit/offset, fetch and order-by. Two \<open>Find\<close> calls that differ only in the configured
  limit and offset, and that both succeed, report the same total; without a raw
  override, that total is what the database reports for the count query, which keeps
  the table, joins, conditions, group-by and having of the row query and has no limit,
  fetch or ordering.
\<close>

theorem Find_total_independent_of_limit:
  assumes "Find E (db\<lparr>limit_Limit := L, limit_Offset := off\<rparr>) log m params =
             Returned (cnt, None) db1 log1"
    and "Find E (db\<lparr>limit_Limit := L', limit_Offset := off'\<rparr>) log m params =
             Returned (cnt', None) db2 log2"
  shows "cnt = cnt'
       \<and> (raw_sqlStr db = [] \<longrightarrow>
            (\<exists>q c. log1 = log @ [QuerySelect q, QueryCount c]
               \<and> cnt = counted E (QueryCount c)
               \<and> c = countQuery q
               \<and> qFrom c = qFrom q \<and> qJoin c = qJoin q \<and> qWhere c = qWhere q
               \<and> qGroupBy c = qGroupBy q \<and> qHaving c = qHaving q
               \<and> qLimit c = None \<and> qFetch c = None \<and> qOrderBy c = []))"
proof (cases "raw_sqlStr db = []")
  case False
  then have "cnt = 0" "cnt' = 0"
    using assms Find_raw_total [of "db\<lparr>limit_Limit := L, limit_Offset := off\<rparr>"]
      Find_raw_total [of "db\<lparr>limit_Limit := L', limit_Offset := off'\<rparr>"]
    by simp_all
  with False show ?thesis by simp
next
  case True
  let ?a = "db\<lparr>limit_Limit := L, limit_Offset := off\<rparr>"
  let ?b = "db\<lparr>limit_Limit := L', limit_Offset := off'\<rparr>"
  have ra: "raw_sqlStr ?a = []" and rb: "raw_sqlStr ?b = []" using True by simp_all
  obtain ta where a: "processModel m = Some ta"
    "cnt = counted E (QueryCount (countQuery (assembleFind E (findDB ?a ta params) ta)))"
    "log1 = log @ [QuerySelect (assembleFind E (findDB ?a ta params) ta),
                   QueryCount (countQuery (assembleFind E (findDB ?a ta params) ta))]"
    using Find_success [OF ra assms(1)] by blast
  obtain tb where b: "processModel m = Some tb"
    "cnt' = counted E (QueryCount (countQuery (assembleFind E (findDB ?b tb params) tb)))"
    using Find_success [OF rb assms(2)] by blast
  from a(1) b(1) have same: "tb = ta" by simp
  have "countQuery (assembleFind E (findDB ?a ta params) ta) =
        countQuery (assembleFind E (findDB ?b ta params) ta)"
    by (simp only: findDB_limit countQuery_assembleFind_limit)
  then have eq: "cnt = cnt'" using a(2) b(2) same by simp
  let ?q = "assembleFind E (findDB ?a ta params) ta"
  have "log1 = log @ [QuerySelect ?q, QueryCount (countQuery ?q)]
      \<and> cnt = counted E (QueryCount (countQuery ?q))
      \<and> countQuery ?q = countQuery ?q
      \<and> qFrom (countQuery ?q) = qFrom ?q \<and> qJoin (countQuery ?q) = qJoin ?q
      \<and> qWhere (countQuery ?q) = qWhere ?q
      \<and> qGroupBy (countQuery ?q) = qGroupBy ?q \<and> qHaving (countQuery ?q) = qHaving ?q
      \<and> qLimit (countQuery ?q) = None \<and> qFetch (countQuery ?q) = None
      \<and> qOrderBy (countQuery ?q) = []"
    using a(2,3) by (simp add: countQuery_def)
  then have "\<exists>q c. log1 = log @ [QuerySelect q, QueryCount c]
               \<and> cnt = counted E (QueryCount c)
               \<and> c = countQuery q
               \<and> qFrom c = qFrom q \<and> qJoin c = qJoin q \<and> qWhere c = qWhere q
               \<and> qGroupBy c = qGroupBy q \<and> qHaving c = qHaving q
               \<and> qLimit c = None \<and> qFetch c = None \<and> qOrderBy c = []"
    by (intro exI [of _ ?q] exI [of _ "countQuery ?q"]) simp
  with eq show ?thesis by simp
qed

theorem Find_total_independent_of_limit_witness:
  "\<exists>d1 d2 l1 l2.
     Find exampleEnv (emptyDB\<lparr>limit_Limit := 10, limit_Offset := 20\<rparr>) []
       (ModelPtrSlice userTable) [] =
         Returned (counted exampleEnv (QueryCount (countQuery (assembleFind exampleEnv
           (emptyDB\<lparr>limit_Limit := 10, limit_Offset := 20\<rparr>) userTable))), None) d1 l1
     \<and> Find exampleEnv (emptyDB\<lparr>limit_Limit := 5, limit_Offset := 0\<rparr>) []
       (ModelPtrSlice userTable) [] =
         Returned (counted exampleEnv (QueryCount (countQuery (assembleFind exampleEnv
           (emptyDB\<lparr>limit_Limit := 5, limit_Offset := 0\<rparr>) userTable))), None) d2 l2
     \<and> counted exampleEnv (QueryCount (countQuery (assembleFind exampleEnv
           (emptyDB\<lparr>limit_Limit := 10, limit_Offset := 20\<rparr>) userTable)))
       = counted exampleEnv (QueryCount (countQuery (assembleFind exampleEnv
           (emptyDB\<lparr>limit_Limit := 5, limit_Offset := 0\<rparr>) userTable)))"
proof -
  let ?a = "emptyDB\<lparr>limit_Limit := 10, limit_Offset := 20\<rparr>"
  let ?b = "emptyDB\<lparr>limit_Limit := 5, limit_Offset := 0\<rparr>"
  let ?m = "ModelPtrSlice userTable"
  have p: "processModel ?m = Some userTable" by simp
  have ra: "raw_sqlStr ?a = []" and rb: "raw_sqlStr ?b = []" by (simp_all add: emptyDB_def)
  have ok: "driver exampleEnv s = None" for s by (simp add: exampleEnv_def)
  have ea: "Find exampleEnv ?a [] ?m [] =
      Returned (counted exampleEnv (QueryCount (countQuery (assembleFind exampleEnv ?a userTable))),
                None) emptyDB
        [QuerySelect (assembleFind exampleEnv ?a userTable),
         QueryCount (countQuery (assembleFind exampleEnv ?a userTable))]"
    unfolding Find_unfold [OF ra p]
    by (simp add: findDB_def findExec_def Let_def ok reset_def)
  have eb: "Find exampleEnv ?b [] ?m [] =
      Returned (counted exampleEnv (QueryCount (countQuery (assembleFind exampleEnv ?b userTable))),
                None) emptyDB
        [QuerySelect (assembleFind exampleEnv ?b userTable),
         QueryCount (countQuery (assembleFind exampleEnv ?b userTable))]"
    unfolding Find_unfold [OF rb p]
    by (simp add: findDB_def findExec_def Let_def ok reset_def)
  from Find_total_independent_of_limit [OF ea eb]
  have "counted exampleEnv (QueryCount (countQuery (assembleFind exampleEnv ?a userTable)))
      = counted exampleEnv (QueryCount (countQuery (assembleFind exampleEnv ?b userTable)))"
    by (rule conjunct1)
  with ea eb show ?thesis by blast
qed

text \<open>
  The id list of \<open>Find\<close>, for a target whose element type has a primary key \<open>p\<close>: a
  sequence becomes the condition \<open>p IN ids\<close>, ahead of the configured conditions; a
  non-nil value of another kind is refused with the invalid-params error before anything
  is executed; the nil interface has no type to ask for its kind.
\<close>

lemma Find_id_list:
  assumes "raw_sqlStr db = []" and "processModel m = Some table"
    and "Primaries table = p # ps"
  shows "Find E db log m (VSlice ids # rest) =
           findExec E (findDB db table (VSlice ids # rest)) log
             (assembleFind E (findDB db table (VSlice ids # rest)) table)
       \<and> qWhere (assembleFind E (findDB db table (VSlice ids # rest)) table) =
           WhereConditionC [Condition (VStr (Name p)) In (VSlice ids) And []]
           # map whereCallOf (whereStatement db) @ whereFromModel E (model db)
       \<and> (a \<noteq> VNil \<and> (\<forall>xs. a \<noteq> VSlice xs) \<longrightarrow>
            Find E db log m (a # rest) = Returned (0, Some InvalidParams) db log)
       \<and> Find E db log m (VNil # rest) = Panicked log"
proof -
  have pk: "primaryKeyOf table = VStr (Name p)"
    using assms(3) by (simp add: primaryKeyOf_def)
  have 1: "Find E db log m (VSlice ids # rest) =
           findExec E (findDB db table (VSlice ids # rest)) log
             (assembleFind E (findDB db table (VSlice ids # rest)) table)"
    unfolding Find_unfold [OF assms(1,2)] using pk by simp
  have 2: "qWhere (assembleFind E (findDB db table (VSlice ids # rest)) table) =
           WhereConditionC [Condition (VStr (Name p)) In (VSlice ids) And []]
           # map whereCallOf (whereStatement db) @ whereFromModel E (model db)"
    using pk by (simp add: assembleFind_qWhere findDB_def)
  have 3: "Find E db log m (a # rest) = Returned (0, Some InvalidParams) db log"
    if "a \<noteq> VNil \<and> (\<forall>xs. a \<noteq> VSlice xs)"
    unfolding Find_unfold [OF assms(1,2)] using pk that by (cases a) simp_all
  have 4: "Find E db log m (VNil # rest) = Panicked log"
    unfolding Find_unfold [OF assms(1,2)] using pk by simp
  show ?thesis using 1 2 3 4 by blast
qed

text \<open>
  Claim C7 (a defect of the code on one input; the claim is not what the code does
  there). An id-list argument that is the nil interface is not a sequence, yet \<open>Find\<close>
  does not fail with the invalid-params error: it panics.
\<close>

theorem Find_nil_id_list_panics:
  "Find exampleEnv emptyDB [] (ModelPtrSlice userTable) [VNil] = Panicked []"
  by (simp add: Find_def emptyDB_def isPtrSlice_def primaryKeyOf_def userTable_def Let_def)

end
